theory Spec2Isabelle
  imports Main "HOL-Library.AList"
begin

section \<open>JSON values and the Python operations the server applies to them\<close>

text \<open>
  The server (\<^verbatim>\<open>dog_mcp_server.py\<close>) reads parsed JSON from the upstream API and builds
  a Python dict that it hands to \<^verbatim>\<open>json.dumps\<close>. A parsed JSON value is \<open>None\<close>, a
  bool, a number, a string, a list or a dict with string keys. A dict is an association
  list in insertion order with distinct keys. Numbers are the integers: the code never
  computes with a number it received, it only copies it or tests its truth value. A
  string is the list of its characters, one \<open>char\<close> for each character Python counts.
\<close>

datatype json =
    JNull
  | JBool bool
  | JInt int
  | JStr string
  | JArr "json list"
  | JObj "(string \<times> json) list"

text \<open>
  Exceptions carry their class and the text \<^verbatim>\<open>str(e)\<close> gives. Every class below derives
  from \<^verbatim>\<open>Exception\<close>; \<^verbatim>\<open>TimeoutException\<close> stands for \<^verbatim>\<open>httpx.TimeoutException\<close>
  and its subclasses, \<^verbatim>\<open>TransportError\<close> for every other failure of the HTTP client.
\<close>

datatype exn_class =
    TimeoutException
  | TransportError
  | JSONDecodeError
  | TypeError
  | AttributeError
  | KeyError
  | IndexError

datatype exn = Exn exn_class string

fun exn_cls :: "exn \<Rightarrow> exn_class" where
  "exn_cls (Exn c m) = c"

fun str_exn :: "exn \<Rightarrow> string" where
  "str_exn (Exn c m) = m"

definition raise :: "exn_class \<Rightarrow> string \<Rightarrow> exn + 'a" where
  "raise c m = Inl (Exn c m)"

text \<open>Sequencing of steps that may raise: the first exception ends the block.\<close>

definition and_then :: "exn + 'a \<Rightarrow> ('a \<Rightarrow> exn + 'b) \<Rightarrow> exn + 'b" where
  "and_then m f = (case m of Inl e \<Rightarrow> Inl e | Inr x \<Rightarrow> f x)"

text \<open>\<^verbatim>\<open>try: ... except ...\<close>: the handler sees whatever the block raised.\<close>

definition catch :: "exn + 'a \<Rightarrow> (exn \<Rightarrow> exn + 'a) \<Rightarrow> exn + 'a" where
  "catch m h = (case m of Inl e \<Rightarrow> h e | Inr x \<Rightarrow> Inr x)"

text \<open>A \<^verbatim>\<open>for\<close> loop that appends one result per element.\<close>

fun for_each :: "('a \<Rightarrow> exn + 'b) \<Rightarrow> 'a list \<Rightarrow> exn + 'b list" where
  "for_each f [] = Inr []"
| "for_each f (x # xs) =
     and_then (f x) (\<lambda>y. and_then (for_each f xs) (\<lambda>ys. Inr (y # ys)))"

definition squote :: "string \<Rightarrow> string" where
  "squote s = [CHR 0x27] @ s @ [CHR 0x27]"

fun type_name :: "json \<Rightarrow> string" where
  "type_name JNull = ''NoneType''"
| "type_name (JBool b) = ''bool''"
| "type_name (JInt i) = ''int''"
| "type_name (JStr s) = ''str''"
| "type_name (JArr xs) = ''list''"
| "type_name (JObj kvs) = ''dict''"

text \<open>The truth value of \<^verbatim>\<open>if x:\<close> and \<^verbatim>\<open>not x\<close>.\<close>

fun truthy :: "json \<Rightarrow> bool" where
  "truthy JNull = False"
| "truthy (JBool b) = b"
| "truthy (JInt i) = (i \<noteq> 0)"
| "truthy (JStr s) = (s \<noteq> [])"
| "truthy (JArr xs) = (xs \<noteq> [])"
| "truthy (JObj kvs) = (kvs \<noteq> [])"

text \<open>\<^verbatim>\<open>if s:\<close> for an \<^verbatim>\<open>Optional[str]\<close>: \<open>None\<close> and the empty string are both false.\<close>

fun truthy_str :: "string option \<Rightarrow> bool" where
  "truthy_str None = False"
| "truthy_str (Some s) = (s \<noteq> [])"

text \<open>\<^verbatim>\<open>len(x)\<close>\<close>

fun py_len :: "json \<Rightarrow> exn + int" where
  "py_len (JArr xs) = Inr (int (length xs))"
| "py_len (JObj kvs) = Inr (int (length kvs))"
| "py_len (JStr s) = Inr (int (length s))"
| "py_len v = raise TypeError (''object of type '' @ squote (type_name v) @ '' has no len()'')"

text \<open>\<^verbatim>\<open>for x in v\<close>: a list gives its elements, a dict its keys, a string its characters.\<close>

fun py_iter :: "json \<Rightarrow> exn + json list" where
  "py_iter (JArr xs) = Inr xs"
| "py_iter (JObj kvs) = Inr (map (\<lambda>kv. JStr (fst kv)) kvs)"
| "py_iter (JStr s) = Inr (map (\<lambda>c. JStr [c]) s)"
| "py_iter v = raise TypeError (squote (type_name v) @ '' object is not iterable'')"

text \<open>\<^verbatim>\<open>x.get(k, d)\<close>; \<^verbatim>\<open>x.get(k)\<close> is \<^verbatim>\<open>x.get(k, None)\<close>. Only a dict has \<^verbatim>\<open>get\<close>.\<close>

fun dict_get :: "json \<Rightarrow> string \<Rightarrow> json \<Rightarrow> exn + json" where
  "dict_get (JObj kvs) k d = Inr (case map_of kvs k of None \<Rightarrow> d | Some v \<Rightarrow> v)"
| "dict_get v k d =
     raise AttributeError (squote (type_name v) @ '' object has no attribute '' @ squote ''get'')"

text \<open>\<^verbatim>\<open>k in x\<close> for a string \<open>k\<close>.\<close>

fun py_contains :: "string \<Rightarrow> json \<Rightarrow> exn + bool" where
  "py_contains k (JObj kvs) = Inr (k \<in> set (map fst kvs))"
| "py_contains k (JArr xs) = Inr (JStr k \<in> set xs)"
| "py_contains k (JStr s) =
     Inr (list_ex (\<lambda>i. take (length k) (drop i s) = k) [0..<Suc (length s)])"
| "py_contains k v =
     raise TypeError (''argument of type '' @ squote (type_name v) @ '' is not iterable'')"

text \<open>\<^verbatim>\<open>x[k]\<close> for a string \<open>k\<close>.\<close>

fun getitem_str :: "json \<Rightarrow> string \<Rightarrow> exn + json" where
  "getitem_str (JObj kvs) k =
     (case map_of kvs k of None \<Rightarrow> raise KeyError (squote k) | Some v \<Rightarrow> Inr v)"
| "getitem_str (JArr xs) k =
     raise TypeError ''list indices must be integers or slices, not str''"
| "getitem_str (JStr s) k =
     raise TypeError (''string indices must be integers, not '' @ squote ''str'')"
| "getitem_str v k = raise TypeError (squote (type_name v) @ '' object is not subscriptable'')"

text \<open>\<^verbatim>\<open>x[0]\<close>. The keys of a parsed JSON object are strings, so \<open>0\<close> is never one.\<close>

fun getitem_0 :: "json \<Rightarrow> exn + json" where
  "getitem_0 (JArr (x # xs)) = Inr x"
| "getitem_0 (JArr []) = raise IndexError ''list index out of range''"
| "getitem_0 (JStr (c # s)) = Inr (JStr [c])"
| "getitem_0 (JStr []) = raise IndexError ''string index out of range''"
| "getitem_0 (JObj kvs) = raise KeyError ''0''"
| "getitem_0 v = raise TypeError (squote (type_name v) @ '' object is not subscriptable'')"

text \<open>\<^verbatim>\<open>str(n)\<close> of an integer, as an f-string prints it.\<close>

definition digit_char :: "nat \<Rightarrow> char" where
  "digit_char d = char_of (48 + d)"

function str_nat :: "nat \<Rightarrow> string" where
  "str_nat n = (if n < 10 then [digit_char n] else str_nat (n div 10) @ [digit_char (n mod 10)])"
  by pat_completeness auto
termination
  by (relation "measure (\<lambda>n. n)") auto

declare str_nat.simps [simp del]

definition str_int :: "int \<Rightarrow> string" where
  "str_int i = (if i < 0 then CHR ''-'' # str_nat (nat (- i)) else str_nat (nat i))"

section \<open>The HTTP client\<close>

text \<open>
  A request is what \<^verbatim>\<open>client.get(url, params=..., headers=...)\<close> is called with. A
  response gives its status code, its raw text (\<^verbatim>\<open>response.text\<close>) and what
  \<^verbatim>\<open>response.json()\<close> does: return the parsed body or raise. The upstream API is any
  function from the requests
  sent so far and the current request to an outcome: a response or an exception raised by
  \<^verbatim>\<open>client.get\<close>. Every operation returns, beside its result, the requests it sent.
\<close>

record request =
  url :: string
  params :: "(string \<times> json) list"
  headers :: "(string \<times> string) list"

record response =
  status_code :: int
  resp_text :: string
  json_body :: "exn + json"

type_synonym server = "request list \<Rightarrow> request \<Rightarrow> exn + response"

definition client_get :: "server \<Rightarrow> request \<Rightarrow> request list \<Rightarrow> (exn + response) \<times> request list" where
  "client_get srv req sent = (srv sent req, sent @ [req])"

definition DOG_API_BASE_URL :: string where
  "DOG_API_BASE_URL = ''https://api.thedogapi.com/v1''"

text \<open>\<^verbatim>\<open>headers = {}; if API_KEY: headers["x-api-key"] = API_KEY\<close>\<close>

fun key_headers :: "string option \<Rightarrow> (string \<times> string) list" where
  "key_headers (Some k) = (if k \<noteq> [] then [(''x-api-key'', k)] else [])"
| "key_headers None = []"

section \<open>\<^verbatim>\<open>get_random_dog_image\<close>\<close>

text \<open>Lines 44--55: the limit check and the query parameters.\<close>

definition random_image_params ::
  "string option \<Rightarrow> string option \<Rightarrow> string \<Rightarrow> int \<Rightarrow> (string \<times> json) list" where
  "random_image_params breed_id category_ids format limit =
     (let limit = (if limit < 1 \<or> limit > 10 then 1 else limit);
          params = [(''limit'', JInt limit), (''format'', JStr format)];
          params = (case breed_id of
                      Some b \<Rightarrow> if b \<noteq> [] then AList.update ''breed_ids'' (JStr b) params else params
                    | None \<Rightarrow> params);
          params = (case category_ids of
                      Some c \<Rightarrow> if c \<noteq> [] then AList.update ''category_ids'' (JStr c) params else params
                    | None \<Rightarrow> params)
      in params)"

definition random_image_request ::
  "string option \<Rightarrow> string option \<Rightarrow> string option \<Rightarrow> string \<Rightarrow> int \<Rightarrow> request" where
  "random_image_request api_key breed_id category_ids format limit =
     \<lparr>url = DOG_API_BASE_URL @ ''/images/search'',
      params = random_image_params breed_id category_ids format limit,
      headers = key_headers api_key\<rparr>"

text \<open>Lines 88--94: the summary of one breed entry.\<close>

definition breed_summary :: "json \<Rightarrow> exn + json" where
  "breed_summary breed =
     and_then (dict_get breed ''name'' JNull) (\<lambda>name.
     and_then (dict_get breed ''temperament'' JNull) (\<lambda>temperament.
     and_then (dict_get breed ''life_span'' JNull) (\<lambda>life_span.
     and_then (and_then (dict_get breed ''weight'' (JObj []))
                 (\<lambda>w. dict_get w ''metric'' (JStr ''Unknown''))) (\<lambda>weight.
     and_then (and_then (dict_get breed ''height'' (JObj []))
                 (\<lambda>h. dict_get h ''metric'' (JStr ''Unknown''))) (\<lambda>height.
     Inr (JObj [(''name'', name), (''temperament'', temperament), (''life_span'', life_span),
                (''weight'', weight), (''height'', height)]))))))"

text \<open>\<^verbatim>\<open>"breeds" in img and img["breeds"]\<close>\<close>

definition has_breeds_entry :: "json \<Rightarrow> exn + bool" where
  "has_breeds_entry img =
     and_then (py_contains ''breeds'' img) (\<lambda>present.
       if present then and_then (getitem_str img ''breeds'') (\<lambda>bs. Inr (truthy bs))
       else Inr False)"

text \<open>\<^verbatim>\<open>img["breeds"][0]\<close>\<close>

definition first_breed :: "json \<Rightarrow> exn + json" where
  "first_breed img = and_then (getitem_str img ''breeds'') getitem_0"

text \<open>Lines 78--83: the four fields copied from an image.\<close>

definition image_fields :: "json \<Rightarrow> exn + (string \<times> json) list" where
  "image_fields img =
     and_then (dict_get img ''id'' JNull) (\<lambda>i.
     and_then (dict_get img ''url'' JNull) (\<lambda>u.
     and_then (dict_get img ''width'' JNull) (\<lambda>w.
     and_then (dict_get img ''height'' JNull) (\<lambda>h.
     Inr [(''id'', i), (''url'', u), (''width'', w), (''height'', h)]))))"

text \<open>Lines 78--96: the body of the loop over the images.\<close>

definition image_info :: "json \<Rightarrow> exn + json" where
  "image_info img =
     and_then (image_fields img) (\<lambda>info.
     and_then (has_breeds_entry img) (\<lambda>has.
       if has then
         and_then (first_breed img) (\<lambda>breed.
         and_then (breed_summary breed) (\<lambda>summary.
         Inr (JObj (AList.update ''breed'' summary info))))
       else Inr (JObj info)))"

text \<open>Lines 68--98: the success document built from the parsed body.\<close>

definition random_image_result :: "json \<Rightarrow> exn + json" where
  "random_image_result data =
     and_then (py_len data) (\<lambda>n.
     and_then (py_iter data) (\<lambda>items.
     and_then (for_each image_info items) (\<lambda>images.
     Inr (JObj [(''status'', JStr ''success''), (''count'', JInt n), (''images'', JArr images)]))))"

text \<open>Lines 67--104: what is done with the response.\<close>

definition random_image_response :: "response \<Rightarrow> exn + json" where
  "random_image_response response =
     (if status_code response = 200 then and_then (json_body response) random_image_result
      else Inr (JObj [(''status'', JStr ''error''),
                      (''message'', JStr (''API request failed with status '' @ str_int (status_code response))),
                      (''details'', JStr (resp_text response))]))"

text \<open>Lines 106--117: the two \<^verbatim>\<open>except\<close> clauses, in the order of the source.\<close>

definition random_image_except :: "string \<Rightarrow> exn \<Rightarrow> exn + json" where
  "random_image_except now e =
     (if exn_cls e = TimeoutException then
        Inr (JObj [(''status'', JStr ''error''),
                   (''message'', JStr ''Request timeout - The Dog API took too long to respond''),
                   (''suggestion'', JStr ''Please try again in a moment'')])
      else
        Inr (JObj [(''status'', JStr ''error''),
                   (''message'', JStr (''Unexpected error: '' @ str_exn e)),
                   (''timestamp'', JStr now)]))"

text \<open>
  The operation. \<open>api_key\<close> is the value of the environment variable \<^verbatim>\<open>DOG_API_KEY\<close>,
  \<open>now\<close> the text of \<^verbatim>\<open>datetime.now().isoformat()\<close>. The result is the document handed to
  \<^verbatim>\<open>json.dumps\<close>, or the exception that leaves the function, and the requests sent.
  \<open>random_image_try\<close> is the \<^verbatim>\<open>try\<close> block (lines 42--104), the operation is the block
  under its \<^verbatim>\<open>except\<close> clauses.
\<close>

definition random_image_try ::
  "server \<Rightarrow> string option \<Rightarrow> string option \<Rightarrow> string option \<Rightarrow> string \<Rightarrow> int
     \<Rightarrow> (exn + json) \<times> request list" where
  "random_image_try srv api_key breed_id category_ids format limit =
     (let (outcome, sent) =
            client_get srv (random_image_request api_key breed_id category_ids format limit) []
      in (and_then outcome random_image_response, sent))"

definition get_random_dog_image ::
  "server \<Rightarrow> string option \<Rightarrow> string \<Rightarrow> string option \<Rightarrow> string option \<Rightarrow> string \<Rightarrow> int
     \<Rightarrow> (exn + json) \<times> request list" where
  "get_random_dog_image srv api_key now breed_id category_ids format limit =
     (let (block, sent) = random_image_try srv api_key breed_id category_ids format limit
      in (catch block (random_image_except now), sent))"

section \<open>\<^verbatim>\<open>get_dog_breeds\<close>\<close>

text \<open>Lines 138--141: the checks of \<open>limit\<close> and \<open>page\<close>.\<close>

definition breeds_limit :: "int \<Rightarrow> int" where
  "breeds_limit limit = (if limit < 1 \<or> limit > 100 then 10 else limit)"

definition breeds_page :: "int \<Rightarrow> int" where
  "breeds_page page = (if page < 0 then 0 else page)"

text \<open>Lines 143--149: the query parameters, from the checked \<open>limit\<close> and \<open>page\<close>.\<close>

definition breeds_params :: "int \<Rightarrow> int \<Rightarrow> string option \<Rightarrow> (string \<times> json) list" where
  "breeds_params limit page search =
     (let params = [(''limit'', JInt limit), (''page'', JInt page)];
          params = (case search of
                      Some s \<Rightarrow> if s \<noteq> [] then AList.update ''q'' (JStr s) params else params
                    | None \<Rightarrow> params)
      in params)"

definition breeds_request :: "string option \<Rightarrow> int \<Rightarrow> int \<Rightarrow> string option \<Rightarrow> request" where
  "breeds_request api_key limit page search =
     \<lparr>url = DOG_API_BASE_URL @ ''/breeds'',
      params = breeds_params limit page search,
      headers = key_headers api_key\<rparr>"

text \<open>Lines 172--185: the record of one breed.\<close>

definition breed_info :: "json \<Rightarrow> exn + json" where
  "breed_info breed =
     and_then (dict_get breed ''id'' JNull) (\<lambda>i.
     and_then (dict_get breed ''name'' JNull) (\<lambda>name.
     and_then (dict_get breed ''temperament'' JNull) (\<lambda>temperament.
     and_then (dict_get breed ''life_span'' JNull) (\<lambda>life_span.
     and_then (dict_get breed ''alt_names'' (JStr [])) (\<lambda>alt_names.
     and_then (dict_get breed ''wikipedia_url'' JNull) (\<lambda>wikipedia_url.
     and_then (dict_get breed ''origin'' (JStr ''Unknown'')) (\<lambda>origin.
     and_then (and_then (dict_get breed ''weight'' (JObj []))
                 (\<lambda>w. dict_get w ''metric'' (JStr ''Unknown''))) (\<lambda>weight_metric.
     and_then (and_then (dict_get breed ''height'' (JObj []))
                 (\<lambda>h. dict_get h ''metric'' (JStr ''Unknown''))) (\<lambda>height_metric.
     and_then (dict_get breed ''bred_for'' (JStr ''Unknown'')) (\<lambda>bred_for.
     and_then (dict_get breed ''breed_group'' (JStr ''Unknown'')) (\<lambda>breed_group.
     and_then (dict_get breed ''reference_image_id'' JNull) (\<lambda>reference_image_id.
     Inr (JObj [(''id'', i), (''name'', name), (''temperament'', temperament),
                (''life_span'', life_span), (''alt_names'', alt_names),
                (''wikipedia_url'', wikipedia_url), (''origin'', origin),
                (''weight_metric'', weight_metric), (''height_metric'', height_metric),
                (''bred_for'', bred_for), (''breed_group'', breed_group),
                (''reference_image_id'', reference_image_id)])))))))))))))"

text \<open>Lines 162--188: the success document.\<close>

definition breeds_result :: "int \<Rightarrow> json \<Rightarrow> exn + json" where
  "breeds_result page breeds =
     and_then (py_len breeds) (\<lambda>n.
     and_then (py_iter breeds) (\<lambda>items.
     and_then (for_each breed_info items) (\<lambda>infos.
     Inr (JObj [(''status'', JStr ''success''), (''count'', JInt n), (''page'', JInt page),
                (''breeds'', JArr infos)]))))"

text \<open>Lines 161--194.\<close>

definition breeds_response :: "int \<Rightarrow> response \<Rightarrow> exn + json" where
  "breeds_response page response =
     (if status_code response = 200 then and_then (json_body response) (breeds_result page)
      else Inr (JObj [(''status'', JStr ''error''),
                      (''message'', JStr (''Failed to fetch breeds with status '' @ str_int (status_code response))),
                      (''details'', JStr (resp_text response))]))"

text \<open>Lines 196--207.\<close>

definition breeds_except :: "string \<Rightarrow> exn \<Rightarrow> exn + json" where
  "breeds_except now e =
     (if exn_cls e = TimeoutException then
        Inr (JObj [(''status'', JStr ''error''),
                   (''message'', JStr ''Request timeout while fetching dog breeds''),
                   (''suggestion'', JStr ''Please try again with a smaller limit or check your connection'')])
      else
        Inr (JObj [(''status'', JStr ''error''),
                   (''message'', JStr (''Error fetching dog breeds: '' @ str_exn e)),
                   (''timestamp'', JStr now)]))"

text \<open>Lines 136--194: the \<^verbatim>\<open>try\<close> block, then the operation.\<close>

definition breeds_try ::
  "server \<Rightarrow> string option \<Rightarrow> int \<Rightarrow> int \<Rightarrow> string option \<Rightarrow> (exn + json) \<times> request list" where
  "breeds_try srv api_key limit page search =
     (let limit = breeds_limit limit;
          page = breeds_page page;
          (outcome, sent) = client_get srv (breeds_request api_key limit page search) []
      in (and_then outcome (breeds_response page), sent))"

definition get_dog_breeds ::
  "server \<Rightarrow> string option \<Rightarrow> string \<Rightarrow> int \<Rightarrow> int \<Rightarrow> string option
     \<Rightarrow> (exn + json) \<times> request list" where
  "get_dog_breeds srv api_key now limit page search =
     (let (block, sent) = breeds_try srv api_key limit page search
      in (catch block (breeds_except now), sent))"

section \<open>\<^verbatim>\<open>search_dog_images\<close>\<close>

text \<open>Lines 228--232: the request that looks the breed up by name.\<close>

definition breed_search_request :: "string option \<Rightarrow> string \<Rightarrow> request" where
  "breed_search_request api_key breed_name =
     \<lparr>url = DOG_API_BASE_URL @ ''/breeds/search'',
      params = [(''q'', JStr breed_name)],
      headers = key_headers api_key\<rparr>"

text \<open>Lines 252--262: the request for the images of the breed found.\<close>

definition image_search_request :: "string option \<Rightarrow> json \<Rightarrow> int \<Rightarrow> bool \<Rightarrow> request" where
  "image_search_request api_key breed_id limit has_breeds =
     \<lparr>url = DOG_API_BASE_URL @ ''/images/search'',
      params = [(''breed_ids'', breed_id),
                (''limit'', JInt (min (max 1 limit) 10)),
                (''has_breeds'', JInt (if has_breeds then 1 else 0))],
      headers = key_headers api_key\<rparr>"

text \<open>Lines 235--239 and 243--247: the two documents returned before any image is asked for.\<close>

definition search_failed :: "string \<Rightarrow> json" where
  "search_failed breed_name =
     JObj [(''status'', JStr ''error''),
           (''message'', JStr (''Failed to search for breed '' @ squote breed_name)),
           (''suggestion'', JStr ''Check the breed name spelling or try a different breed'')]"

definition no_breeds_found :: "string \<Rightarrow> json" where
  "no_breeds_found breed_name =
     JObj [(''status'', JStr ''error''),
           (''message'', JStr (''No breeds found matching '' @ squote breed_name)),
           (''suggestion'', JStr (''Try searching for popular breeds like '' @ squote ''Golden Retriever''
                                   @ '', '' @ squote ''Labrador'' @ '', '' @ squote ''Poodle''))]"

text \<open>Lines 285--290.\<close>

definition breed_details :: "json \<Rightarrow> exn + json" where
  "breed_details breed =
     and_then (dict_get breed ''name'' JNull) (\<lambda>name.
     and_then (dict_get breed ''temperament'' JNull) (\<lambda>temperament.
     and_then (dict_get breed ''bred_for'' JNull) (\<lambda>bred_for.
     and_then (dict_get breed ''life_span'' JNull) (\<lambda>life_span.
     Inr (JObj [(''name'', name), (''temperament'', temperament), (''bred_for'', bred_for),
                (''life_span'', life_span)])))))"

text \<open>Lines 276--292: the body of the loop over the images found.\<close>

definition search_image_info :: "json \<Rightarrow> exn + json" where
  "search_image_info img =
     and_then (image_fields img) (\<lambda>info.
     and_then (has_breeds_entry img) (\<lambda>has.
       if has then
         and_then (first_breed img) (\<lambda>breed.
         and_then (breed_details breed) (\<lambda>details.
         Inr (JObj (AList.update ''breed_details'' details info))))
       else Inr (JObj info)))"

text \<open>Lines 265--294: the success document; \<^verbatim>\<open>breeds[0]["name"]\<close> is read while it is built.\<close>

definition search_images_result :: "string \<Rightarrow> json \<Rightarrow> json \<Rightarrow> exn + json" where
  "search_images_result breed_name breeds images =
     and_then (and_then (getitem_0 breeds) (\<lambda>b. getitem_str b ''name'')) (\<lambda>found.
     and_then (py_len images) (\<lambda>n.
     and_then (py_iter images) (\<lambda>items.
     and_then (for_each search_image_info items) (\<lambda>infos.
     Inr (JObj [(''status'', JStr ''success''), (''breed_searched'', JStr breed_name),
                (''breed_found'', found), (''count'', JInt n), (''images'', JArr infos)])))))"

text \<open>Lines 264--300.\<close>

definition search_images_response :: "string \<Rightarrow> json \<Rightarrow> response \<Rightarrow> exn + json" where
  "search_images_response breed_name breeds response =
     (if status_code response = 200
      then and_then (json_body response) (search_images_result breed_name breeds)
      else Inr (JObj [(''status'', JStr ''error''),
                      (''message'', JStr (''Failed to fetch images for '' @ breed_name)),
                      (''details'', JStr (resp_text response))]))"

text \<open>Lines 302--307: the only \<^verbatim>\<open>except\<close> clause of this operation.\<close>

definition search_except :: "string \<Rightarrow> string \<Rightarrow> exn \<Rightarrow> exn + json" where
  "search_except now breed_name e =
     Inr (JObj [(''status'', JStr ''error''),
                (''message'', JStr (''Error searching for '' @ breed_name @ '' images: '' @ str_exn e)),
                (''timestamp'', JStr now)])"

text \<open>Lines 226--300: the \<^verbatim>\<open>try\<close> block, then the operation.\<close>

definition search_try ::
  "server \<Rightarrow> string option \<Rightarrow> string \<Rightarrow> int \<Rightarrow> bool \<Rightarrow> (exn + json) \<times> request list" where
  "search_try srv api_key breed_name limit has_breeds =
     (let (outcome, sent) = client_get srv (breed_search_request api_key breed_name) [] in
      case outcome of
        Inl e \<Rightarrow> (Inl e, sent)
      | Inr breed_response \<Rightarrow>
          if status_code breed_response \<noteq> 200 then (Inr (search_failed breed_name), sent)
          else
            (case json_body breed_response of
               Inl e \<Rightarrow> (Inl e, sent)
             | Inr breeds \<Rightarrow>
                 if \<not> truthy breeds then (Inr (no_breeds_found breed_name), sent)
                 else
                   (case and_then (getitem_0 breeds) (\<lambda>b. getitem_str b ''id'') of
                      Inl e \<Rightarrow> (Inl e, sent)
                    | Inr breed_id \<Rightarrow>
                        (let (outcome2, sent2) =
                               client_get srv (image_search_request api_key breed_id limit has_breeds) sent
                         in (and_then outcome2 (search_images_response breed_name breeds), sent2)))))"

definition search_dog_images ::
  "server \<Rightarrow> string option \<Rightarrow> string \<Rightarrow> string \<Rightarrow> int \<Rightarrow> bool \<Rightarrow> (exn + json) \<times> request list" where
  "search_dog_images srv api_key now breed_name limit has_breeds =
     (let (block, sent) = search_try srv api_key breed_name limit has_breeds
      in (catch block (search_except now breed_name), sent))"

section \<open>\<^verbatim>\<open>check_dog_api_status\<close>\<close>

text \<open>Line 319: the probe, called with a URL only.\<close>

definition probe_request :: request where
  "probe_request = \<lparr>url = DOG_API_BASE_URL @ ''/images/search?limit=1'', params = [], headers = []\<rparr>"

text \<open>Lines 340--343: the request that tests the key \<open>k\<close>.\<close>

definition auth_request :: "string \<Rightarrow> request" where
  "auth_request k = \<lparr>url = DOG_API_BASE_URL @ ''/breeds'', params = [], headers = [(''x-api-key'', k)]\<rparr>"

text \<open>Lines 321--332: the report as first built.\<close>

definition initial_report :: "string option \<Rightarrow> string \<Rightarrow> (string \<times> json) list" where
  "initial_report api_key now =
     [(''timestamp'', JStr now),
      (''api_status'', JStr ''unknown''),
      (''api_key_configured'', JBool (truthy_str api_key)),
      (''base_url'', JStr DOG_API_BASE_URL),
      (''connectivity'', JStr ''unknown''),
      (''configuration'', JObj [(''timeout'', JStr ''10 seconds''),
                                (''max_images_per_request'', JInt 10),
                                (''supported_formats'', JArr [JStr ''json'', JStr ''src''])])]"

text \<open>Lines 355--363.\<close>

definition troubleshooting :: json where
  "troubleshooting =
     JObj [(''api_key_setup'', JStr ''Set DOG_API_KEY environment variable''),
           (''get_api_key'', JStr ''Visit https://thedogapi.com to get a free API key''),
           (''common_issues'', JArr [JStr ''Check internet connection'',
                                     JStr ''Verify API key is correct'',
                                     JStr ''Ensure rate limits are not exceeded''])]"

text \<open>Lines 367--385.\<close>

definition status_except :: "string \<Rightarrow> exn \<Rightarrow> exn + json" where
  "status_except now e =
     (if exn_cls e = TimeoutException then
        Inr (JObj [(''status'', JStr ''error''),
                   (''message'', JStr ''Connection timeout to The Dog API''),
                   (''troubleshooting'',
                      JObj [(''suggestions'', JArr [JStr ''Check your internet connection'',
                                                    JStr ''Try again in a few moments'',
                                                    JStr ''Verify The Dog API is operational''])]),
                   (''timestamp'', JStr now)])
      else
        Inr (JObj [(''status'', JStr ''error''),
                   (''message'', JStr (''Failed to check API status: '' @ str_exn e)),
                   (''timestamp'', JStr now)]))"

text \<open>
  Lines 317--365: the \<^verbatim>\<open>try\<close> block, then the operation. \<^verbatim>\<open>if API_KEY:\<close> holds
  for a key that is set and not empty; the \<^verbatim>\<open>else\<close> branch is the \<open>None\<close> case below.
\<close>

definition status_try ::
  "server \<Rightarrow> string option \<Rightarrow> string \<Rightarrow> (exn + json) \<times> request list" where
  "status_try srv api_key now =
     (let (outcome, sent) = client_get srv probe_request [] in
      case outcome of
        Inl e \<Rightarrow> (Inl e, sent)
      | Inr response \<Rightarrow>
          (let result = initial_report api_key now in
           if status_code response = 200 then
             (let result = AList.update ''api_status'' (JStr ''operational'') result;
                  result = AList.update ''connectivity'' (JStr ''successful'') result
              in case (if truthy_str api_key then api_key else None) of
                   Some k \<Rightarrow>
                     (let (outcome2, sent2) = client_get srv (auth_request k) sent in
                      case outcome2 of
                        Inl e \<Rightarrow> (Inl e, sent2)
                      | Inr auth_response \<Rightarrow>
                          (let result = AList.update ''api_key_status''
                                 (JStr (if status_code auth_response = 200 then ''valid'' else ''invalid''))
                                 result;
                               result = AList.update ''troubleshooting'' troubleshooting result
                           in (Inr (JObj result), sent2)))
                 | None \<Rightarrow>
                     (let result = AList.update ''api_key_status'' (JStr ''not_configured'') result;
                          result = AList.update ''note''
                            (JStr ''API key not set. Some features may be limited.'') result;
                          result = AList.update ''troubleshooting'' troubleshooting result
                      in (Inr (JObj result), sent)))
           else
             (let result = AList.update ''api_status'' (JStr ''error'') result;
                  result = AList.update ''connectivity''
                    (JStr (''failed_with_status_'' @ str_int (status_code response))) result;
                  result = AList.update ''error_details'' (JStr (resp_text response)) result;
                  result = AList.update ''troubleshooting'' troubleshooting result
              in (Inr (JObj result), sent))))"

definition check_dog_api_status ::
  "server \<Rightarrow> string option \<Rightarrow> string \<Rightarrow> (exn + json) \<times> request list" where
  "check_dog_api_status srv api_key now =
     (let (block, sent) = status_try srv api_key now
      in (catch block (status_except now), sent))"

text \<open>The value stored under a key of a document; \<open>None\<close> when the key is absent.\<close>

fun field :: "json \<Rightarrow> string \<Rightarrow> json option" where
  "field (JObj kvs) k = map_of kvs k"
| "field v k = None"

section \<open>The text returned\<close>

text \<open>
  Every \<^verbatim>\<open>return\<close> of the four operations is \<^verbatim>\<open>return json.dumps(document, indent=2)\<close>.
  \<open>json_dumps\<close> is the library function with these arguments: items on lines of their
  own, indented by two spaces for each level, separated by a comma, a key followed by a
  colon and a space, an empty list or dict on one line. Strings are written between double
  quotes with \<^verbatim>\<open>ensure_ascii\<close>: the quote, the backslash and the control characters with a
  short form are escaped with a backslash, every other character outside the printable
  ASCII range as \<^verbatim>\<open>\u00xx\<close>. The function is total on the documents, which hold nothing
  but \<open>None\<close>, bools, integers, strings, lists and dicts with string keys, so the text an
  operation returns is \<open>json_dumps\<close> of the document it built.
\<close>

definition hex_digit :: "nat \<Rightarrow> char" where
  "hex_digit d = (if d < 10 then char_of (48 + d) else char_of (87 + d))"

definition escape_char :: "char \<Rightarrow> string" where
  "escape_char c =
     (if c = CHR 0x22 then [CHR 0x5C, CHR 0x22]
      else if c = CHR 0x5C then [CHR 0x5C, CHR 0x5C]
      else if c = CHR 0x0A then [CHR 0x5C, CHR ''n'']
      else if c = CHR 0x0D then [CHR 0x5C, CHR ''r'']
      else if c = CHR 0x09 then [CHR 0x5C, CHR ''t'']
      else if c = CHR 0x08 then [CHR 0x5C, CHR ''b'']
      else if c = CHR 0x0C then [CHR 0x5C, CHR ''f'']
      else if 32 \<le> (of_char c :: nat) \<and> (of_char c :: nat) \<le> 126 then [c]
      else [CHR 0x5C, CHR ''u'', CHR ''0'', CHR ''0'',
            hex_digit ((of_char c :: nat) div 16), hex_digit ((of_char c :: nat) mod 16)])"

definition encode_string :: "string \<Rightarrow> string" where
  "encode_string s = [CHR 0x22] @ concat (map escape_char s) @ [CHR 0x22]"

fun join :: "string \<Rightarrow> string list \<Rightarrow> string" where
  "join sep [] = []"
| "join sep [x] = x"
| "join sep (x # y # ys) = x @ sep @ join sep (y # ys)"

definition newline_indent :: "nat \<Rightarrow> string" where
  "newline_indent level = CHR 0x0A # replicate (2 * level) CHR '' ''"

fun dumps_at :: "nat \<Rightarrow> json \<Rightarrow> string" where
  "dumps_at level JNull = ''null''"
| "dumps_at level (JBool b) = (if b then ''true'' else ''false'')"
| "dumps_at level (JInt i) = str_int i"
| "dumps_at level (JStr s) = encode_string s"
| "dumps_at level (JArr xs) =
     (if xs = [] then ''[]''
      else ''['' @ newline_indent (Suc level)
           @ join ('','' @ newline_indent (Suc level)) (map (dumps_at (Suc level)) xs)
           @ newline_indent level @ '']'')"
| "dumps_at level (JObj kvs) =
     (if kvs = [] then ''{}''
      else ''{'' @ newline_indent (Suc level)
           @ join ('','' @ newline_indent (Suc level))
               (map (\<lambda>(k, v). encode_string k @ '': '' @ dumps_at (Suc level) v) kvs)
           @ newline_indent level @ ''}'')"

definition json_dumps :: "json \<Rightarrow> string" where
  "json_dumps doc = dumps_at 0 doc"

text \<open>
  What the caller of an operation receives: the serialized document, or the exception
  that left the operation.
\<close>

definition returned_text :: "(exn + json) \<times> request list \<Rightarrow> exn + string" where
  "returned_text result =
     (case fst result of Inl e \<Rightarrow> Inl e | Inr doc \<Rightarrow> Inr (json_dumps doc))"

section \<open>The image objects of the upstream API\<close>

text \<open>
  The items the image-search endpoint is documented to return: an image is an object
  whose \<open>breeds\<close>, when present, is empty (or otherwise false) or a list that starts with
  a breed object; the \<open>weight\<close> and \<open>height\<close> of a breed object, when present, are
  objects. \<open>field_or\<close> reads a field with a default, and \<open>metric_or_unknown\<close> is the
  metric entry of a measure, \<open>Unknown\<close> when the measure or its metric entry is absent.
\<close>

fun is_object :: "json \<Rightarrow> bool" where
  "is_object (JObj kvs) = True"
| "is_object v = False"

definition field_or :: "json \<Rightarrow> string \<Rightarrow> json \<Rightarrow> json" where
  "field_or v k d = (case field v k of None \<Rightarrow> d | Some x \<Rightarrow> x)"

definition metric_or_unknown :: "json \<Rightarrow> string \<Rightarrow> json" where
  "metric_or_unknown breed k =
     (case field breed k of
        None \<Rightarrow> JStr ''Unknown''
      | Some m \<Rightarrow> field_or m ''metric'' (JStr ''Unknown''))"

definition breed_entry :: "json \<Rightarrow> bool" where
  "breed_entry b =
     (is_object b
      \<and> (case field b ''weight'' of None \<Rightarrow> True | Some w \<Rightarrow> is_object w)
      \<and> (case field b ''height'' of None \<Rightarrow> True | Some h \<Rightarrow> is_object h))"

fun breeds_value :: "json \<Rightarrow> bool" where
  "breeds_value (JArr (b # bs)) = breed_entry b"
| "breeds_value v = (\<not> truthy v)"

definition image_item :: "json \<Rightarrow> bool" where
  "image_item img =
     (is_object img \<and> (case field img ''breeds'' of None \<Rightarrow> True | Some v \<Rightarrow> breeds_value v))"

text \<open>
  What an entry \<open>e\<close> of the result has to be for the image \<open>img\<close>: the four fields
  copied (\<open>null\<close> for one the image lacks), a \<open>breed\<close> exactly when the \<open>breeds\<close> of the
  image is a list that is not empty, and then the summary of the first breed of that list.
\<close>

definition image_entry_of :: "json \<Rightarrow> json \<Rightarrow> bool" where
  "image_entry_of img e =
     (field e ''id'' = Some (field_or img ''id'' JNull)
      \<and> field e ''url'' = Some (field_or img ''url'' JNull)
      \<and> field e ''width'' = Some (field_or img ''width'' JNull)
      \<and> field e ''height'' = Some (field_or img ''height'' JNull)
      \<and> ((field e ''breed'' \<noteq> None) = (\<exists>b bs. field img ''breeds'' = Some (JArr (b # bs))))
      \<and> (\<forall>b bs. field img ''breeds'' = Some (JArr (b # bs)) \<longrightarrow>
            field e ''breed''
              = Some (JObj [(''name'', field_or b ''name'' JNull),
                            (''temperament'', field_or b ''temperament'' JNull),
                            (''life_span'', field_or b ''life_span'' JNull),
                            (''weight'', metric_or_unknown b ''weight''),
                            (''height'', metric_or_unknown b ''height'')])))"

section \<open>Upstream behaviours used as examples\<close>

text \<open>A server that answers every request alike, and one that answers from a script.\<close>

definition always :: "exn + response \<Rightarrow> server" where
  "always outcome sent req = outcome"

definition scripted :: "(exn + response) list \<Rightarrow> server" where
  "scripted outcomes sent req =
     (if length sent < length outcomes then outcomes ! length sent
      else Inl (Exn TransportError ''All connection attempts failed''))"

text \<open>
  A 200 response with a parsed body; the server never reads the raw text of a 200
  response, which is left empty here. A response with another status and a body that is
  not JSON.
\<close>

definition json_response :: "json \<Rightarrow> response" where
  "json_response body = \<lparr>status_code = 200, resp_text = [], json_body = Inr body\<rparr>"

definition error_response :: "int \<Rightarrow> string \<Rightarrow> response" where
  "error_response code body =
     \<lparr>status_code = code, resp_text = body,
      json_body = Inl (Exn JSONDecodeError ''Expecting value: line 1 column 1 (char 0)'')\<rparr>"

section \<open>Basic facts\<close>

lemma and_then_Inl [simp]: "and_then (Inl e) f = Inl e"
  by (simp add: and_then_def)

lemma and_then_Inr [simp]: "and_then (Inr x) f = f x"
  by (simp add: and_then_def)

lemma catch_Inl [simp]: "catch (Inl e) h = h e"
  by (simp add: catch_def)

lemma catch_Inr [simp]: "catch (Inr x) h = Inr x"
  by (simp add: catch_def)

lemma scripted_first [simp]: "scripted (x # xs) [] req = x"
  by (simp add: scripted_def)

lemma scripted_second [simp]: "scripted (x # y # xs) [r] req = y"
  by (simp add: scripted_def)

subsection \<open>The loop over the images\<close>

lemma for_each_all:
  "\<forall>x \<in> set xs. \<exists>y. f x = Inr y \<and> P x y \<Longrightarrow>
   \<exists>ys. for_each f xs = Inr ys \<and> length ys = length xs \<and> (\<forall>i < length xs. P (xs ! i) (ys ! i))"
proof (induction xs)
  case Nil
  then show ?case by simp
next
  case (Cons x xs)
  then obtain y where y: "f x = Inr y" "P x y" by auto
  from Cons obtain ys where ys: "for_each f xs = Inr ys" "length ys = length xs"
    "\<forall>i < length xs. P (xs ! i) (ys ! i)" by auto
  have "\<forall>i < length (x # xs). P ((x # xs) ! i) ((y # ys) ! i)"
  proof (intro allI impI)
    fix i assume "i < length (x # xs)"
    then show "P ((x # xs) ! i) ((y # ys) ! i)"
      using y ys by (cases i) auto
  qed
  with y ys show ?case by simp
qed

lemma breed_summary_entry:
  "breed_entry b \<Longrightarrow>
   breed_summary b = Inr (JObj [(''name'', field_or b ''name'' JNull),
                            (''temperament'', field_or b ''temperament'' JNull),
                            (''life_span'', field_or b ''life_span'' JNull),
                            (''weight'', metric_or_unknown b ''weight''),
                            (''height'', metric_or_unknown b ''height'')])"
proof (cases b)
  case (JObj kvs)
  assume be: "breed_entry b"
  have w: "and_then (dict_get b ''weight'' (JObj [])) (\<lambda>w. dict_get w ''metric'' (JStr ''Unknown''))
             = Inr (metric_or_unknown b ''weight'')"
  proof (cases "map_of kvs ''weight''")
    case None
    with JObj show ?thesis by (simp add: metric_or_unknown_def)
  next
    case (Some m)
    with JObj be obtain mk where "m = JObj mk"
      by (cases m) (simp_all add: breed_entry_def)
    with Some JObj show ?thesis
      by (simp add: metric_or_unknown_def field_or_def)
  qed
  have h: "and_then (dict_get b ''height'' (JObj [])) (\<lambda>w. dict_get w ''metric'' (JStr ''Unknown''))
             = Inr (metric_or_unknown b ''height'')"
  proof (cases "map_of kvs ''height''")
    case None
    with JObj show ?thesis by (simp add: metric_or_unknown_def)
  next
    case (Some m)
    with JObj be obtain mk where "m = JObj mk"
      by (cases m) (simp_all add: breed_entry_def)
    with Some JObj show ?thesis
      by (simp add: metric_or_unknown_def field_or_def)
  qed
  show ?thesis
    unfolding breed_summary_def w h
    using JObj by (simp add: field_or_def)
qed (simp_all add: breed_entry_def)


lemma image_fields_object:
  "image_fields (JObj kvs)
     = Inr [(''id'', field_or (JObj kvs) ''id'' JNull), (''url'', field_or (JObj kvs) ''url'' JNull),
            (''width'', field_or (JObj kvs) ''width'' JNull),
            (''height'', field_or (JObj kvs) ''height'' JNull)]"
  by (simp add: image_fields_def field_or_def)

lemma has_breeds_entry_object:
  "has_breeds_entry (JObj kvs)
     = Inr (case map_of kvs ''breeds'' of None \<Rightarrow> False | Some v \<Rightarrow> truthy v)"
proof (cases "map_of kvs ''breeds''")
  case None
  then have "''breeds'' \<notin> fst ` set kvs"
    by (simp add: map_of_eq_None_iff)
  with None show ?thesis
    by (simp add: has_breeds_entry_def)
next
  case (Some v)
  then have "''breeds'' \<in> fst ` set kvs"
    by (metis map_of_eq_None_iff option.distinct(1))
  with Some show ?thesis
    by (simp add: has_breeds_entry_def)
qed

lemma image_info_item:
  assumes "image_item img"
  shows "\<exists>e. image_info img = Inr e \<and> image_entry_of img e"
proof (cases img)
  case (JObj kvs)
  show ?thesis
  proof (cases "map_of kvs ''breeds''")
    case None
    with JObj show ?thesis
      by (simp add: image_info_def image_fields_object has_breeds_entry_object image_entry_of_def)
  next
    case (Some v)
    show ?thesis
    proof (cases "\<exists>b bs. v = JArr (b # bs)")
      case True
      then obtain b bs where v: "v = JArr (b # bs)" by blast
      with assms JObj Some have "breed_entry b"
        by (simp add: image_item_def)
      then have "breed_summary b = Inr (JObj [(''name'', field_or b ''name'' JNull),
                            (''temperament'', field_or b ''temperament'' JNull),
                            (''life_span'', field_or b ''life_span'' JNull),
                            (''weight'', metric_or_unknown b ''weight''),
                            (''height'', metric_or_unknown b ''height'')])"
        by (rule breed_summary_entry)
      with JObj Some v show ?thesis
        by (simp add: image_info_def image_fields_object has_breeds_entry_object image_entry_of_def
            first_breed_def update_conv')
    next
      case False
      with assms JObj Some have "\<not> truthy v"
        by (cases v rule: breeds_value.cases) (simp_all add: image_item_def)
      with JObj Some False show ?thesis
        by (simp add: image_info_def image_fields_object has_breeds_entry_object image_entry_of_def)
    qed
  qed
qed (use assms in \<open>simp_all add: image_item_def\<close>)

lemma for_each_fails:
  "x \<in> set xs \<Longrightarrow> \<exists>e. f x = Inl e \<Longrightarrow> \<exists>e. for_each f xs = Inl e"
proof (induction xs)
  case Nil
  then show ?case by simp
next
  case (Cons y ys)
  show ?case
  proof (cases "f y")
    case (Inl e)
    then show ?thesis by simp
  next
    case (Inr v)
    with Cons have "x \<in> set ys" by auto
    with Cons obtain e where "for_each f ys = Inl e" by blast
    with Inr show ?thesis by simp
  qed
qed

lemma breed_summary_fails:
  assumes "\<not> breed_entry b"
  shows "\<exists>e. breed_summary b = Inl e"
proof (cases b)
  case (JObj kvs)
  show ?thesis
  proof (cases "case map_of kvs ''weight'' of None \<Rightarrow> True | Some w \<Rightarrow> is_object w")
    case False
    then obtain w where w: "map_of kvs ''weight'' = Some w" "\<not> is_object w"
      by (auto split: option.splits)
    then have "\<exists>e. dict_get w ''metric'' (JStr ''Unknown'') = Inl e"
      by (cases w) (simp_all add: raise_def)
    with JObj w show ?thesis
      by (auto simp add: breed_summary_def)
  next
    case True
    with assms JObj obtain h where h: "map_of kvs ''height'' = Some h" "\<not> is_object h"
      by (auto simp add: breed_entry_def split: option.splits)
    then have hm: "\<exists>e. dict_get h ''metric'' (JStr ''Unknown'') = Inl e"
      by (cases h) (simp_all add: raise_def)
    have "\<exists>v. and_then (dict_get b ''weight'' (JObj []))
                 (\<lambda>w. dict_get w ''metric'' (JStr ''Unknown'')) = Inr v"
    proof (cases "map_of kvs ''weight''")
      case None
      with JObj show ?thesis by simp
    next
      case (Some w)
      with True obtain wk where "w = JObj wk" by (cases w) simp_all
      with Some JObj show ?thesis by simp
    qed
    with JObj h hm show ?thesis
      by (auto simp add: breed_summary_def)
  qed
qed (simp_all add: breed_summary_def raise_def)

lemma image_info_fails:
  assumes "\<not> image_item img"
  shows "\<exists>e. image_info img = Inl e"
proof (cases img)
  case (JObj kvs)
  with assms obtain v where v: "map_of kvs ''breeds'' = Some v" "\<not> breeds_value v"
    by (auto simp add: image_item_def split: option.splits)
  have "truthy v \<and> (\<exists>e. and_then (getitem_0 v) breed_summary = Inl e)"
  proof (cases v)
    case (JArr xs)
    with v obtain b bs where xs: "xs = b # bs" by (cases xs) simp_all
    with v JArr have "\<not> breed_entry b" by simp
    then obtain e where "breed_summary b = Inl e"
      using breed_summary_fails by blast
    with JArr xs show ?thesis by simp
  next
    case (JStr s)
    with v obtain c cs where "s = c # cs" by (cases s) simp_all
    with JStr show ?thesis by (simp add: breed_summary_def raise_def)
  qed (use v in \<open>simp_all add: raise_def\<close>)
  with JObj v show ?thesis
    by (auto simp add: image_info_def image_fields_object has_breeds_entry_object first_breed_def
        and_then_def split: sum.splits)
qed (simp_all add: image_info_def image_fields_def raise_def)


subsection \<open>The status of the documents\<close>

lemma random_image_result_status:
  "random_image_result data = Inr doc \<Longrightarrow> field doc ''status'' = Some (JStr ''success'')"
  by (auto simp add: random_image_result_def and_then_def split: sum.splits)

lemma random_image_response_status:
  "random_image_response r = Inr doc \<Longrightarrow>
     field doc ''status'' = Some (JStr ''success'') \<or> field doc ''status'' = Some (JStr ''error'')"
  by (auto simp add: random_image_response_def and_then_def random_image_result_status
      split: sum.splits if_splits)

lemma random_image_try_status:
  "fst (random_image_try srv api_key breed_id category_ids format limit) = Inr doc \<Longrightarrow>
     field doc ''status'' = Some (JStr ''success'') \<or> field doc ''status'' = Some (JStr ''error'')"
  by (auto simp add: random_image_try_def client_get_def and_then_def
      dest: random_image_response_status split: sum.splits)

lemma random_image_except_status:
  "\<exists>doc. random_image_except now e = Inr doc \<and> field doc ''status'' = Some (JStr ''error'')"
  by (simp add: random_image_except_def)

lemma get_random_dog_image_document:
  "\<exists>doc. fst (get_random_dog_image srv api_key now breed_id category_ids format limit) = Inr doc
     \<and> (case fst (random_image_try srv api_key breed_id category_ids format limit) of
          Inl e \<Rightarrow> field doc ''status'' = Some (JStr ''error'')
        | Inr d \<Rightarrow> doc = d \<and> (field doc ''status'' = Some (JStr ''success'')
                               \<or> field doc ''status'' = Some (JStr ''error'')))"
proof (cases "random_image_try srv api_key breed_id category_ids format limit")
  case (Pair block sent)
  show ?thesis
  proof (cases block)
    case (Inl e)
    with Pair random_image_except_status [of now e] show ?thesis
      by (auto simp add: get_random_dog_image_def)
  next
    case (Inr doc)
    with Pair random_image_try_status [of srv api_key breed_id category_ids format limit doc]
    show ?thesis
      by (simp add: get_random_dog_image_def)
  qed
qed

lemma breeds_result_status:
  "breeds_result page data = Inr doc \<Longrightarrow> field doc ''status'' = Some (JStr ''success'')"
  by (auto simp add: breeds_result_def and_then_def split: sum.splits)

lemma breeds_response_status:
  "breeds_response page r = Inr doc \<Longrightarrow>
     field doc ''status'' = Some (JStr ''success'') \<or> field doc ''status'' = Some (JStr ''error'')"
  by (auto simp add: breeds_response_def and_then_def breeds_result_status
      split: sum.splits if_splits)

lemma breeds_try_status:
  "fst (breeds_try srv api_key limit page search) = Inr doc \<Longrightarrow>
     field doc ''status'' = Some (JStr ''success'') \<or> field doc ''status'' = Some (JStr ''error'')"
  by (auto simp add: breeds_try_def client_get_def and_then_def Let_def
      dest: breeds_response_status split: sum.splits)

lemma breeds_except_status:
  "\<exists>doc. breeds_except now e = Inr doc \<and> field doc ''status'' = Some (JStr ''error'')"
  by (simp add: breeds_except_def)

lemma get_dog_breeds_document:
  "\<exists>doc. fst (get_dog_breeds srv api_key now limit page search) = Inr doc
     \<and> (case fst (breeds_try srv api_key limit page search) of
          Inl e \<Rightarrow> field doc ''status'' = Some (JStr ''error'')
        | Inr d \<Rightarrow> doc = d \<and> (field doc ''status'' = Some (JStr ''success'')
                               \<or> field doc ''status'' = Some (JStr ''error'')))"
proof (cases "breeds_try srv api_key limit page search")
  case (Pair block sent)
  show ?thesis
  proof (cases block)
    case (Inl e)
    with Pair breeds_except_status [of now e] show ?thesis
      by (auto simp add: get_dog_breeds_def)
  next
    case (Inr doc)
    with Pair breeds_try_status [of srv api_key limit page search doc]
    show ?thesis
      by (simp add: get_dog_breeds_def)
  qed
qed

lemma search_images_result_status:
  "search_images_result breed_name breeds images = Inr doc \<Longrightarrow>
     field doc ''status'' = Some (JStr ''success'')"
  by (auto simp add: search_images_result_def and_then_def split: sum.splits)

lemma search_images_response_status:
  "search_images_response breed_name breeds r = Inr doc \<Longrightarrow>
     field doc ''status'' = Some (JStr ''success'') \<or> field doc ''status'' = Some (JStr ''error'')"
  by (auto simp add: search_images_response_def and_then_def search_images_result_status
      split: sum.splits if_splits)

lemma search_try_status:
  "fst (search_try srv api_key breed_name limit has_breeds) = Inr doc \<Longrightarrow>
     field doc ''status'' = Some (JStr ''success'') \<or> field doc ''status'' = Some (JStr ''error'')"
  by (auto simp add: search_try_def client_get_def search_failed_def no_breeds_found_def
      and_then_def
      dest: search_images_response_status split: sum.splits if_splits)

lemma search_dog_images_document:
  "\<exists>doc. fst (search_dog_images srv api_key now breed_name limit has_breeds) = Inr doc
     \<and> (case fst (search_try srv api_key breed_name limit has_breeds) of
          Inl e \<Rightarrow> field doc ''status'' = Some (JStr ''error'')
        | Inr d \<Rightarrow> doc = d \<and> (field doc ''status'' = Some (JStr ''success'')
                               \<or> field doc ''status'' = Some (JStr ''error'')))"
proof (cases "search_try srv api_key breed_name limit has_breeds")
  case (Pair block sent)
  show ?thesis
  proof (cases block)
    case (Inl e)
    with Pair show ?thesis
      by (simp add: search_dog_images_def search_except_def)
  next
    case (Inr doc)
    with Pair search_try_status [of srv api_key breed_name limit has_breeds doc]
    show ?thesis
      by (simp add: search_dog_images_def)
  qed
qed

lemma status_try_report:
  "fst (status_try srv api_key now) = Inr doc \<Longrightarrow>
     field doc ''status'' = None
     \<and> (field doc ''api_status'' = Some (JStr ''operational'')
        \<or> field doc ''api_status'' = Some (JStr ''error''))"
  by (auto simp add: status_try_def client_get_def initial_report_def Let_def update_conv'
      split: sum.splits if_splits option.splits)

lemma status_except_status:
  "\<exists>doc. status_except now e = Inr doc \<and> field doc ''status'' = Some (JStr ''error'')"
  by (simp add: status_except_def)

lemma check_dog_api_status_document:
  "\<exists>doc. fst (check_dog_api_status srv api_key now) = Inr doc
     \<and> (case fst (status_try srv api_key now) of
          Inl e \<Rightarrow> field doc ''status'' = Some (JStr ''error'')
        | Inr d \<Rightarrow> doc = d \<and> field doc ''status'' = None
                   \<and> (field doc ''api_status'' = Some (JStr ''operational'')
                      \<or> field doc ''api_status'' = Some (JStr ''error'')))"
proof (cases "status_try srv api_key now")
  case (Pair block sent)
  show ?thesis
  proof (cases block)
    case (Inl e)
    with Pair status_except_status [of now e] show ?thesis
      by (auto simp add: check_dog_api_status_def)
  next
    case (Inr doc)
    with Pair status_try_report [of srv api_key now doc]
    show ?thesis
      by (simp add: check_dog_api_status_def)
  qed
qed

lemma returned_text_document: "fst result = Inr doc \<Longrightarrow> returned_text result = Inr (json_dumps doc)"
  by (simp add: returned_text_def)

section \<open>Properties\<close>

text \<open>
  C1, as far as it holds. Whatever the upstream does, each of the four operations builds
  one document and returns its serialization, and no exception leaves the operation. The
  document of \<^verbatim>\<open>get_random_dog_image\<close>, of \<^verbatim>\<open>get_dog_breeds\<close> and of
  \<^verbatim>\<open>search_dog_images\<close> has a \<open>status\<close>: \<open>error\<close> when the \<^verbatim>\<open>try\<close> block raised, and
  otherwise \<open>success\<close> or \<open>error\<close> as the block set it. The document of
  \<^verbatim>\<open>check_dog_api_status\<close> has the status \<open>error\<close> when the \<^verbatim>\<open>try\<close> block raised, that
  is when it comes from an \<^verbatim>\<open>except\<close> clause; otherwise it is the report of the block,
  which has no \<open>status\<close> and whose \<open>api_status\<close> is \<open>operational\<close> or \<open>error\<close>.
\<close>

theorem one_document_per_call:
  "(\<exists>doc. fst (get_random_dog_image srv api_key now breed_id category_ids format limit) = Inr doc
       \<and> returned_text (get_random_dog_image srv api_key now breed_id category_ids format limit)
           = Inr (json_dumps doc)
       \<and> (case fst (random_image_try srv api_key breed_id category_ids format limit) of
            Inl e \<Rightarrow> field doc ''status'' = Some (JStr ''error'')
          | Inr d \<Rightarrow> doc = d \<and> (field doc ''status'' = Some (JStr ''success'')
                                 \<or> field doc ''status'' = Some (JStr ''error''))))
   \<and> (\<exists>doc. fst (get_dog_breeds srv api_key now limit page search) = Inr doc
       \<and> returned_text (get_dog_breeds srv api_key now limit page search) = Inr (json_dumps doc)
       \<and> (case fst (breeds_try srv api_key limit page search) of
            Inl e \<Rightarrow> field doc ''status'' = Some (JStr ''error'')
          | Inr d \<Rightarrow> doc = d \<and> (field doc ''status'' = Some (JStr ''success'')
                                 \<or> field doc ''status'' = Some (JStr ''error''))))
   \<and> (\<exists>doc. fst (search_dog_images srv api_key now breed_name limit has_breeds) = Inr doc
       \<and> returned_text (search_dog_images srv api_key now breed_name limit has_breeds)
           = Inr (json_dumps doc)
       \<and> (case fst (search_try srv api_key breed_name limit has_breeds) of
            Inl e \<Rightarrow> field doc ''status'' = Some (JStr ''error'')
          | Inr d \<Rightarrow> doc = d \<and> (field doc ''status'' = Some (JStr ''success'')
                                 \<or> field doc ''status'' = Some (JStr ''error''))))
   \<and> (\<exists>doc. fst (check_dog_api_status srv api_key now) = Inr doc
       \<and> returned_text (check_dog_api_status srv api_key now) = Inr (json_dumps doc)
       \<and> (case fst (status_try srv api_key now) of
            Inl e \<Rightarrow> field doc ''status'' = Some (JStr ''error'')
          | Inr d \<Rightarrow> doc = d \<and> field doc ''status'' = None
                     \<and> (field doc ''api_status'' = Some (JStr ''operational'')
                        \<or> field doc ''api_status'' = Some (JStr ''error''))))"
proof (intro conjI)
  show "\<exists>doc. fst (get_random_dog_image srv api_key now breed_id category_ids format limit) = Inr doc
       \<and> returned_text (get_random_dog_image srv api_key now breed_id category_ids format limit)
           = Inr (json_dumps doc)
       \<and> (case fst (random_image_try srv api_key breed_id category_ids format limit) of
            Inl e \<Rightarrow> field doc ''status'' = Some (JStr ''error'')
          | Inr d \<Rightarrow> doc = d \<and> (field doc ''status'' = Some (JStr ''success'')
                                 \<or> field doc ''status'' = Some (JStr ''error'')))"
    using get_random_dog_image_document [of srv api_key now breed_id category_ids format limit]
    by (blast intro: returned_text_document)
  show "\<exists>doc. fst (get_dog_breeds srv api_key now limit page search) = Inr doc
       \<and> returned_text (get_dog_breeds srv api_key now limit page search) = Inr (json_dumps doc)
       \<and> (case fst (breeds_try srv api_key limit page search) of
            Inl e \<Rightarrow> field doc ''status'' = Some (JStr ''error'')
          | Inr d \<Rightarrow> doc = d \<and> (field doc ''status'' = Some (JStr ''success'')
                                 \<or> field doc ''status'' = Some (JStr ''error'')))"
    using get_dog_breeds_document [of srv api_key now limit page search]
    by (blast intro: returned_text_document)
  show "\<exists>doc. fst (search_dog_images srv api_key now breed_name limit has_breeds) = Inr doc
       \<and> returned_text (search_dog_images srv api_key now breed_name limit has_breeds)
           = Inr (json_dumps doc)
       \<and> (case fst (search_try srv api_key breed_name limit has_breeds) of
            Inl e \<Rightarrow> field doc ''status'' = Some (JStr ''error'')
          | Inr d \<Rightarrow> doc = d \<and> (field doc ''status'' = Some (JStr ''success'')
                                 \<or> field doc ''status'' = Some (JStr ''error'')))"
    using search_dog_images_document [of srv api_key now breed_name limit has_breeds]
    by (blast intro: returned_text_document)
  show "\<exists>doc. fst (check_dog_api_status srv api_key now) = Inr doc
       \<and> returned_text (check_dog_api_status srv api_key now) = Inr (json_dumps doc)
       \<and> (case fst (status_try srv api_key now) of
            Inl e \<Rightarrow> field doc ''status'' = Some (JStr ''error'')
          | Inr d \<Rightarrow> doc = d \<and> field doc ''status'' = None
                     \<and> (field doc ''api_status'' = Some (JStr ''operational'')
                        \<or> field doc ''api_status'' = Some (JStr ''error'')))"
    using check_dog_api_status_document [of srv api_key now]
    by (blast intro: returned_text_document)
qed

text \<open>
  C1 as stated fails for \<^verbatim>\<open>check_dog_api_status\<close>: with a probe answered with status 200
  and no key, the document has no \<open>status\<close> field.
\<close>

theorem one_document_per_call_counterexample:
  "fst (check_dog_api_status (always (Inr (json_response (JArr [JObj [(''id'', JStr ''BJa4kxc4X'')]]))))
          None ''2025-06-01T12:00:00'')
     = Inr (JObj
        [(''timestamp'', JStr ''2025-06-01T12:00:00''),
         (''api_status'', JStr ''operational''),
         (''api_key_configured'', JBool False),
         (''base_url'', JStr ''https://api.thedogapi.com/v1''),
         (''connectivity'', JStr ''successful''),
         (''configuration'',
            JObj [(''timeout'', JStr ''10 seconds''),
                  (''max_images_per_request'', JInt 10),
                  (''supported_formats'', JArr [JStr ''json'', JStr ''src''])]),
         (''api_key_status'', JStr ''not_configured''),
         (''note'', JStr ''API key not set. Some features may be limited.''),
         (''troubleshooting'',
            JObj [(''api_key_setup'', JStr ''Set DOG_API_KEY environment variable''),
                  (''get_api_key'', JStr ''Visit https://thedogapi.com to get a free API key''),
                  (''common_issues'', JArr [JStr ''Check internet connection'',
                                            JStr ''Verify API key is correct'',
                                            JStr ''Ensure rate limits are not exceeded''])])])
   \<and> (case fst (check_dog_api_status
                   (always (Inr (json_response (JArr [JObj [(''id'', JStr ''BJa4kxc4X'')]]))))
                   None ''2025-06-01T12:00:00'') of
         Inr doc \<Rightarrow> field doc ''status'' = None
       | Inl e \<Rightarrow> False)"
  by code_simp

text \<open>
  C2. When the image search of \<^verbatim>\<open>get_random_dog_image\<close> is answered with status 200 and a
  list of N items, the operation returns a success document exactly when every item is an
  image object, and the success document has count N and N entries, the entry at each
  position made from the item at that position: the entry has a \<open>breed\<close> exactly when
  the \<open>breeds\<close> of the item is a list that is not empty, the \<open>breed\<close> is the summary of
  the first breed of that list, and its weight and height are the metric values,
  \<open>Unknown\<close> when absent.
\<close>

theorem random_images_mapped:
  assumes "srv [] (random_image_request api_key breed_id category_ids format limit) = Inr r"
    and "status_code r = 200"
    and "json_body r = Inr (JArr items)"
  shows "\<exists>doc. fst (get_random_dog_image srv api_key now breed_id category_ids format limit) = Inr doc
           \<and> ((field doc ''status'' = Some (JStr ''success'')) = (\<forall>img \<in> set items. image_item img))
           \<and> (field doc ''status'' = Some (JStr ''success'') \<longrightarrow>
                (\<exists>entries.
                   doc = JObj [(''status'', JStr ''success''), (''count'', JInt (int (length items))),
                               (''images'', JArr entries)]
                   \<and> length entries = length items
                   \<and> (\<forall>i < length items. image_entry_of (items ! i) (entries ! i))))"
proof (cases "\<forall>img \<in> set items. image_item img")
  case True
  then have "\<forall>img \<in> set items. \<exists>e. image_info img = Inr e \<and> image_entry_of img e"
    by (simp add: image_info_item)
  then obtain entries where e: "for_each image_info items = Inr entries"
    "length entries = length items" "\<forall>i < length items. image_entry_of (items ! i) (entries ! i)"
    using for_each_all [of items image_info image_entry_of] by blast
  with assms True show ?thesis
    by (simp add: get_random_dog_image_def random_image_try_def client_get_def
        random_image_response_def random_image_result_def)
next
  case False
  then obtain img where "img \<in> set items" "\<not> image_item img" by blast
  then obtain e where "for_each image_info items = Inl e"
    using for_each_fails [of img items image_info] image_info_fails [of img] by blast
  with assms have "fst (get_random_dog_image srv api_key now breed_id category_ids format limit)
      = random_image_except now e"
    by (simp add: get_random_dog_image_def random_image_try_def client_get_def
        random_image_response_def random_image_result_def)
  moreover obtain doc where "random_image_except now e = Inr doc"
    "field doc ''status'' = Some (JStr ''error'')"
    using random_image_except_status [of now e] by blast
  ultimately show ?thesis
    using False by simp
qed

text \<open>
  Two images: the first with one breed that has a weight and no height, the second with
  an empty list of breeds and neither width nor height.
\<close>

theorem random_images_mapped_witness:
  "fst (get_random_dog_image
          (always (Inr (json_response (JArr
             [JObj [(''id'', JStr ''BJa4kxc4X''),
                    (''url'', JStr ''https://cdn2.thedogapi.com/images/BJa4kxc4X.jpg''),
                    (''width'', JInt 1600), (''height'', JInt 1199),
                    (''breeds'', JArr [JObj [(''name'', JStr ''Beagle''),
                                            (''temperament'', JStr ''Amiable, Gentle''),
                                            (''life_span'', JStr ''13 - 16 years''),
                                            (''weight'', JObj [(''imperial'', JStr ''20 - 35''),
                                                               (''metric'', JStr ''9 - 16'')])],
                                      JObj [(''name'', JStr ''Harrier'')]])],
              JObj [(''id'', JStr ''Hk1sRe9Em''),
                    (''url'', JStr ''https://cdn2.thedogapi.com/images/Hk1sRe9Em.jpg''),
                    (''breeds'', JArr [])]]))))
          None ''2025-06-01T12:00:00'' None None ''json'' 2)
     = Inr (JObj [(''status'', JStr ''success''), (''count'', JInt 2),
                  (''images'', JArr
             [JObj [(''id'', JStr ''BJa4kxc4X''),
                    (''url'', JStr ''https://cdn2.thedogapi.com/images/BJa4kxc4X.jpg''),
                    (''width'', JInt 1600), (''height'', JInt 1199),
                    (''breed'', JObj [(''name'', JStr ''Beagle''),
                                      (''temperament'', JStr ''Amiable, Gentle''),
                                      (''life_span'', JStr ''13 - 16 years''),
                                      (''weight'', JStr ''9 - 16''),
                                      (''height'', JStr ''Unknown'')])],
              JObj [(''id'', JStr ''Hk1sRe9Em''),
                    (''url'', JStr ''https://cdn2.thedogapi.com/images/Hk1sRe9Em.jpg''),
                    (''width'', JNull), (''height'', JNull)]])])"
proof -
  let ?items = "[JObj [(''id'', JStr ''BJa4kxc4X''),
                    (''url'', JStr ''https://cdn2.thedogapi.com/images/BJa4kxc4X.jpg''),
                    (''width'', JInt 1600), (''height'', JInt 1199),
                    (''breeds'', JArr [JObj [(''name'', JStr ''Beagle''),
                                            (''temperament'', JStr ''Amiable, Gentle''),
                                            (''life_span'', JStr ''13 - 16 years''),
                                            (''weight'', JObj [(''imperial'', JStr ''20 - 35''),
                                                               (''metric'', JStr ''9 - 16'')])],
                                      JObj [(''name'', JStr ''Harrier'')]])],
              JObj [(''id'', JStr ''Hk1sRe9Em''),
                    (''url'', JStr ''https://cdn2.thedogapi.com/images/Hk1sRe9Em.jpg''),
                    (''breeds'', JArr [])]]"
  let ?srv = "always (Inr (json_response (JArr ?items)))"
  have h1: "?srv [] (random_image_request None None None ''json'' 2) = Inr (json_response (JArr ?items))"
    by (simp add: always_def)
  have h2: "status_code (json_response (JArr ?items)) = 200"
    by (simp add: json_response_def)
  have h3: "json_body (json_response (JArr ?items)) = Inr (JArr ?items)"
    by (simp add: json_response_def)
  have h4: "\<forall>img \<in> set ?items. image_item img"
    by (simp add: image_item_def breed_entry_def)
  from random_images_mapped [of ?srv None None None "''json''" 2 "json_response (JArr ?items)"
      ?items "''2025-06-01T12:00:00''", OF h1 h2 h3] h4
  obtain entries where
    doc: "fst (get_random_dog_image ?srv None ''2025-06-01T12:00:00'' None None ''json'' 2)
            = Inr (JObj [(''status'', JStr ''success''), (''count'', JInt 2), (''images'', JArr entries)])"
    by auto
  have "for_each image_info ?items
          = Inr [JObj [(''id'', JStr ''BJa4kxc4X''),
                    (''url'', JStr ''https://cdn2.thedogapi.com/images/BJa4kxc4X.jpg''),
                    (''width'', JInt 1600), (''height'', JInt 1199),
                    (''breed'', JObj [(''name'', JStr ''Beagle''),
                                      (''temperament'', JStr ''Amiable, Gentle''),
                                      (''life_span'', JStr ''13 - 16 years''),
                                      (''weight'', JStr ''9 - 16''),
                                      (''height'', JStr ''Unknown'')])],
              JObj [(''id'', JStr ''Hk1sRe9Em''),
                    (''url'', JStr ''https://cdn2.thedogapi.com/images/Hk1sRe9Em.jpg''),
                    (''width'', JNull), (''height'', JNull)]]"
    by (simp add: image_info_def image_fields_def has_breeds_entry_def first_breed_def
        breed_summary_def)
  with doc show ?thesis
    by (simp add: get_random_dog_image_def random_image_try_def client_get_def always_def
        json_response_def random_image_response_def random_image_result_def)
qed

text \<open>
  C3. For every integer limit given to \<^verbatim>\<open>get_random_dog_image\<close>, exactly one request is
  sent, and the limit in its query is 1 when the input is below 1 or above 10 and the
  input itself when it lies in 1..10.
\<close>

theorem random_image_limit_reset:
  "\<exists>req. snd (get_random_dog_image srv api_key now breed_id category_ids format limit) = [req]
     \<and> map_of (params req) ''limit'' = Some (JInt (if 1 \<le> limit \<and> limit \<le> 10 then limit else 1))"
  by (simp add: get_random_dog_image_def random_image_try_def client_get_def random_image_request_def
      random_image_params_def Let_def update_conv' split: option.split)

text \<open>
  C4. Every request that \<^verbatim>\<open>search_dog_images\<close> sends to the image-search endpoint carries
  the limit \<open>max 1 (min limit 10)\<close>, for every integer input. Such a request is sent, after
  the breed search, whenever the breed search is answered with status 200 and a list
  whose first entry is an object with an \<open>id\<close>.
\<close>

theorem search_limit_clamped:
  "(\<forall>req \<in> set (snd (search_dog_images srv api_key now breed_name limit has_breeds)).
      url req = DOG_API_BASE_URL @ ''/images/search'' \<longrightarrow>
      map_of (params req) ''limit'' = Some (JInt (max 1 (min limit 10))))
   \<and> (srv [] (breed_search_request api_key breed_name) = Inr r \<and> status_code r = 200
        \<and> json_body r = Inr (JArr (JObj kvs # rest)) \<and> map_of kvs ''id'' = Some breed_id \<longrightarrow>
      (\<exists>req. snd (search_dog_images srv api_key now breed_name limit has_breeds)
                = [breed_search_request api_key breed_name, req]
            \<and> url req = DOG_API_BASE_URL @ ''/images/search''
            \<and> map_of (params req) ''breed_ids'' = Some breed_id
            \<and> map_of (params req) ''limit'' = Some (JInt (max 1 (min limit 10)))))"
proof (intro conjI ballI impI)
  fix req
  assume "req \<in> set (snd (search_dog_images srv api_key now breed_name limit has_breeds))"
    and "url req = DOG_API_BASE_URL @ ''/images/search''"
  then show "map_of (params req) ''limit'' = Some (JInt (max 1 (min limit 10)))"
    by (auto simp add: search_dog_images_def search_try_def client_get_def
        image_search_request_def breed_search_request_def DOG_API_BASE_URL_def
        split: prod.splits sum.splits if_splits)
next
  assume "srv [] (breed_search_request api_key breed_name) = Inr r \<and> status_code r = 200
        \<and> json_body r = Inr (JArr (JObj kvs # rest)) \<and> map_of kvs ''id'' = Some breed_id"
  then show "\<exists>req. snd (search_dog_images srv api_key now breed_name limit has_breeds)
                = [breed_search_request api_key breed_name, req]
            \<and> url req = DOG_API_BASE_URL @ ''/images/search''
            \<and> map_of (params req) ''breed_ids'' = Some breed_id
            \<and> map_of (params req) ''limit'' = Some (JInt (max 1 (min limit 10)))"
    by (simp add: search_dog_images_def search_try_def client_get_def image_search_request_def
        split: prod.split)
qed

text \<open>A limit of 25 is sent as 10, a limit of -3 as 1.\<close>

theorem search_limit_clamped_witness:
  "snd (search_dog_images
          (scripted [Inr (json_response (JArr [JObj [(''id'', JInt 31), (''name'', JStr ''Beagle'')]])),
                     Inr (json_response (JArr []))])
          (Some ''live_key'') ''2025-06-01T12:00:00'' ''Beagle'' 25 True)
     = [\<lparr>url = ''https://api.thedogapi.com/v1/breeds/search'',
         params = [(''q'', JStr ''Beagle'')], headers = [(''x-api-key'', ''live_key'')]\<rparr>,
        \<lparr>url = ''https://api.thedogapi.com/v1/images/search'',
         params = [(''breed_ids'', JInt 31), (''limit'', JInt 10), (''has_breeds'', JInt 1)],
         headers = [(''x-api-key'', ''live_key'')]\<rparr>]
   \<and> snd (search_dog_images
          (scripted [Inr (json_response (JArr [JObj [(''id'', JInt 31), (''name'', JStr ''Beagle'')]])),
                     Inr (json_response (JArr []))])
          (Some ''live_key'') ''2025-06-01T12:00:00'' ''Beagle'' (- 3) False)
     = [\<lparr>url = ''https://api.thedogapi.com/v1/breeds/search'',
         params = [(''q'', JStr ''Beagle'')], headers = [(''x-api-key'', ''live_key'')]\<rparr>,
        \<lparr>url = ''https://api.thedogapi.com/v1/images/search'',
         params = [(''breed_ids'', JInt 31), (''limit'', JInt 1), (''has_breeds'', JInt 0)],
         headers = [(''x-api-key'', ''live_key'')]\<rparr>]"
proof -
  let ?first = "json_response (JArr [JObj [(''id'', JInt 31), (''name'', JStr ''Beagle'')]])"
  let ?s = "scripted [Inr ?first, Inr (json_response (JArr []))]"
  have h: "?s [] (breed_search_request (Some ''live_key'') ''Beagle'') = Inr ?first
             \<and> status_code ?first = 200
             \<and> json_body ?first = Inr (JArr (JObj [(''id'', JInt 31), (''name'', JStr ''Beagle'')] # []))
             \<and> map_of [(''id'', JInt 31), (''name'', JStr ''Beagle'')] ''id'' = Some (JInt 31)"
    by (simp add: json_response_def)
  from search_limit_clamped [of ?s "Some ''live_key''" "''2025-06-01T12:00:00''" "''Beagle''" 25 True
      ?first "[(''id'', JInt 31), (''name'', JStr ''Beagle'')]" "[]" "JInt 31"] h
  have a: "\<exists>req. snd (search_dog_images ?s (Some ''live_key'') ''2025-06-01T12:00:00'' ''Beagle'' 25 True)
              = [breed_search_request (Some ''live_key'') ''Beagle'', req]
            \<and> map_of (params req) ''limit'' = Some (JInt 10)"
    by auto
  from search_limit_clamped [of ?s "Some ''live_key''" "''2025-06-01T12:00:00''" "''Beagle''" "- 3" False
      ?first "[(''id'', JInt 31), (''name'', JStr ''Beagle'')]" "[]" "JInt 31"] h
  have b: "\<exists>req. snd (search_dog_images ?s (Some ''live_key'') ''2025-06-01T12:00:00'' ''Beagle'' (- 3) False)
              = [breed_search_request (Some ''live_key'') ''Beagle'', req]
            \<and> map_of (params req) ''limit'' = Some (JInt 1)"
    by auto
  from a b show ?thesis
    by (simp add: search_dog_images_def search_try_def client_get_def image_search_request_def
        breed_search_request_def json_response_def search_images_response_def
        search_images_result_def DOG_API_BASE_URL_def)
qed

text \<open>
  C5. Every call of \<^verbatim>\<open>get_dog_breeds\<close> sends exactly one request; the limit in its query
  is 10 when the input is below 1 or above 100 and the input itself otherwise, and the
  page is 0 when the input is negative and the input itself otherwise.
\<close>

theorem breeds_limit_page_reset:
  "\<exists>req. snd (get_dog_breeds srv api_key now limit page search) = [req]
     \<and> map_of (params req) ''limit'' = Some (JInt (if 1 \<le> limit \<and> limit \<le> 100 then limit else 10))
     \<and> map_of (params req) ''page'' = Some (JInt (if page < 0 then 0 else page))"
  by (simp add: get_dog_breeds_def breeds_try_def client_get_def breeds_request_def
      breeds_params_def breeds_limit_def breeds_page_def Let_def update_conv' split: option.split)

text \<open>
  C6, as far as it holds. When the breed search of \<^verbatim>\<open>search_dog_images\<close> is answered
  with status 200 and an empty list, the operation returns the error document whose
  \<open>message\<close> names the breed searched for and whose separate \<open>suggestion\<close> field gives
  the example breed names, and the only request sent is the breed search: none goes to the
  image-search endpoint.
\<close>

theorem no_match_is_error:
  assumes "srv [] (breed_search_request api_key breed_name) = Inr r"
    and "status_code r = 200"
    and "json_body r = Inr (JArr [])"
  shows "search_dog_images srv api_key now breed_name limit has_breeds
           = (Inr (JObj [(''status'', JStr ''error''),
                         (''message'', JStr (''No breeds found matching '' @ squote breed_name)),
                         (''suggestion'', JStr (''Try searching for popular breeds like ''
                              @ squote ''Golden Retriever'' @ '', '' @ squote ''Labrador''
                              @ '', '' @ squote ''Poodle''))]),
              [breed_search_request api_key breed_name])
         \<and> url (breed_search_request api_key breed_name) = DOG_API_BASE_URL @ ''/breeds/search''"
  using assms
  by (simp add: search_dog_images_def search_try_def client_get_def no_breeds_found_def
      breed_search_request_def)

theorem no_match_is_error_witness:
  "search_dog_images (always (Inr (json_response (JArr [])))) None ''2025-06-01T12:00:00''
       ''Unicorn'' 5 True
     = (Inr (JObj [(''status'', JStr ''error''),
                   (''message'', JStr (''No breeds found matching '' @ squote ''Unicorn'')),
                   (''suggestion'', JStr (''Try searching for popular breeds like 'Golden Retriever', 'Labrador', ''
                        @ squote ''Poodle''))]),
        [\<lparr>url = ''https://api.thedogapi.com/v1/breeds/search'',
          params = [(''q'', JStr ''Unicorn'')], headers = []\<rparr>])"
  using no_match_is_error [of "always (Inr (json_response (JArr [])))" None "''Unicorn''"
      "json_response (JArr [])" "''2025-06-01T12:00:00''" 5 True]
  by (simp add: always_def json_response_def breed_search_request_def squote_def DOG_API_BASE_URL_def)

text \<open>
  C6 as stated fails: the message does not include the example breed names. For the
  search for \<open>Unicorn\<close> the message holds the name and none of the three examples, which
  are in the suggestion.
\<close>

theorem no_match_is_error_counterexample:
  "fst (search_dog_images (always (Inr (json_response (JArr [])))) None ''2025-06-01T12:00:00''
          ''Unicorn'' 5 True)
     = Inr (JObj [(''status'', JStr ''error''),
                  (''message'', JStr (''No breeds found matching '' @ squote ''Unicorn'')),
                  (''suggestion'', JStr (''Try searching for popular breeds like ''
                       @ squote ''Golden Retriever'' @ '', '' @ squote ''Labrador''
                       @ '', '' @ squote ''Poodle''))])
   \<and> py_contains ''Unicorn'' (JStr (''No breeds found matching '' @ squote ''Unicorn'')) = Inr True
   \<and> py_contains ''Golden Retriever'' (JStr (''No breeds found matching '' @ squote ''Unicorn''))
       = Inr False
   \<and> py_contains ''Labrador'' (JStr (''No breeds found matching '' @ squote ''Unicorn'')) = Inr False
   \<and> py_contains ''Poodle'' (JStr (''No breeds found matching '' @ squote ''Unicorn'')) = Inr False
   \<and> (case fst (search_dog_images (always (Inr (json_response (JArr [])))) None
                   ''2025-06-01T12:00:00'' ''Unicorn'' 5 True) of
         Inr doc \<Rightarrow>
           (case field doc ''message'' of
              Some m \<Rightarrow> py_contains ''Golden Retriever'' m = Inr False
            | None \<Rightarrow> False)
       | Inl e \<Rightarrow> False)"
  by code_simp

text \<open>
  C7. When the request of \<^verbatim>\<open>get_random_dog_image\<close> times out, the document returned is
  the fixed one of the timeout clause: status \<open>error\<close>, a fixed message and a fixed
  suggestion, with no \<open>details\<close> (no upstream body) and no \<open>timestamp\<close> (which the
  generic clause would add). Whatever status other than 200 the upstream answers with
  instead, the message of the document returned then is a different one.
\<close>

theorem timeout_branch:
  assumes "srv [] (random_image_request api_key breed_id category_ids format limit) = Inl e"
    and "exn_cls e = TimeoutException"
    and "srv2 [] (random_image_request api_key breed_id category_ids format limit) = Inr r"
    and "status_code r \<noteq> 200"
  shows "fst (get_random_dog_image srv api_key now breed_id category_ids format limit)
           = Inr (JObj [(''status'', JStr ''error''),
                        (''message'', JStr ''Request timeout - The Dog API took too long to respond''),
                        (''suggestion'', JStr ''Please try again in a moment'')])
         \<and> (\<exists>m. fst (get_random_dog_image srv2 api_key now breed_id category_ids format limit)
                  = Inr (JObj [(''status'', JStr ''error''), (''message'', JStr m),
                               (''details'', JStr (resp_text r))])
                \<and> m \<noteq> ''Request timeout - The Dog API took too long to respond'')"
  using assms
  by (simp add: get_random_dog_image_def random_image_try_def client_get_def
      random_image_response_def random_image_except_def)

theorem timeout_branch_witness:
  "fst (get_random_dog_image (always (Inl (Exn TimeoutException ''timed out''))) (Some ''live_key'')
          ''2025-06-01T12:00:00'' (Some ''5'') None ''json'' 3)
     = Inr (JObj [(''status'', JStr ''error''),
                  (''message'', JStr ''Request timeout - The Dog API took too long to respond''),
                  (''suggestion'', JStr ''Please try again in a moment'')])
   \<and> (\<exists>m. fst (get_random_dog_image (always (Inr (error_response 429 ''Too Many Requests'')))
                 (Some ''live_key'') ''2025-06-01T12:00:00'' (Some ''5'') None ''json'' 3)
              = Inr (JObj [(''status'', JStr ''error''), (''message'', JStr m),
                           (''details'', JStr ''Too Many Requests'')])
          \<and> m \<noteq> ''Request timeout - The Dog API took too long to respond'')"
  using timeout_branch [of "always (Inl (Exn TimeoutException ''timed out''))" "Some ''live_key''"
      "Some ''5''" None "''json''" 3 "Exn TimeoutException ''timed out''"
      "always (Inr (error_response 429 ''Too Many Requests''))" "error_response 429 ''Too Many Requests''"
      "''2025-06-01T12:00:00''"]
  by (simp add: always_def error_response_def)

text \<open>
  C8. Whatever exception the \<^verbatim>\<open>try\<close> block of \<^verbatim>\<open>search_dog_images\<close> raises, of whatever
  class, the operation returns the one generic error document: status \<open>error\<close>, a message
  that ends with the text of the exception, and the timestamp. A timeout is treated like
  any other exception.
\<close>

theorem search_generic_error:
  assumes "fst (search_try srv api_key breed_name limit has_breeds) = Inl e"
  shows "fst (search_dog_images srv api_key now breed_name limit has_breeds)
           = Inr (JObj [(''status'', JStr ''error''),
                        (''message'', JStr (''Error searching for '' @ breed_name @ '' images: '' @ str_exn e)),
                        (''timestamp'', JStr now)])"
  using assms
  by (cases "search_try srv api_key breed_name limit has_breeds")
    (simp add: search_dog_images_def search_except_def)

text \<open>A timeout of the first request, and a timeout of the second.\<close>

theorem search_generic_error_witness:
  "fst (search_dog_images (always (Inl (Exn TimeoutException ''The read operation timed out'')))
          None ''2025-06-01T12:00:00'' ''Beagle'' 5 True)
     = Inr (JObj [(''status'', JStr ''error''),
                  (''message'', JStr ''Error searching for Beagle images: The read operation timed out''),
                  (''timestamp'', JStr ''2025-06-01T12:00:00'')])
   \<and> fst (search_dog_images
          (scripted [Inr (json_response (JArr [JObj [(''id'', JInt 31), (''name'', JStr ''Beagle'')]])),
                     Inl (Exn TimeoutException ''The read operation timed out'')])
          None ''2025-06-01T12:00:00'' ''Beagle'' 5 True)
     = Inr (JObj [(''status'', JStr ''error''),
                  (''message'', JStr ''Error searching for Beagle images: The read operation timed out''),
                  (''timestamp'', JStr ''2025-06-01T12:00:00'')])"
proof -
  let ?e = "Exn TimeoutException ''The read operation timed out''"
  let ?s = "scripted [Inr (json_response (JArr [JObj [(''id'', JInt 31), (''name'', JStr ''Beagle'')]])),
                      Inl ?e]"
  have first: "fst (search_try (always (Inl ?e)) None ''Beagle'' 5 True) = Inl ?e"
    by (simp add: search_try_def client_get_def always_def)
  have second: "fst (search_try ?s None ''Beagle'' 5 True) = Inl ?e"
    by (simp add: search_try_def client_get_def json_response_def)
  show ?thesis
    using search_generic_error [OF first, of "''2025-06-01T12:00:00''"]
      search_generic_error [OF second, of "''2025-06-01T12:00:00''"]
    by simp
qed

text \<open>
  C9, as far as it holds. With no API key configured (unset or empty),
  \<^verbatim>\<open>check_dog_api_status\<close> sends the probe and nothing else, and the probe has no headers,
  so no API key. The document has the key status \<open>not_configured\<close> when the probe is
  answered with status 200; it has no key status when the probe is answered with another
  status or raises.
\<close>

theorem status_without_key:
  assumes "\<not> truthy_str api_key"
  shows "snd (check_dog_api_status srv api_key now) = [probe_request]
         \<and> headers probe_request = []
         \<and> (\<exists>doc. fst (check_dog_api_status srv api_key now) = Inr doc
               \<and> field doc ''api_key_status''
                   = (case srv [] probe_request of
                        Inl e \<Rightarrow> None
                      | Inr r \<Rightarrow> if status_code r = 200 then Some (JStr ''not_configured'') else None))"
  using assms
  by (cases "srv [] probe_request")
    (simp_all add: check_dog_api_status_def status_try_def client_get_def probe_request_def
      status_except_def initial_report_def Let_def update_conv')

theorem status_without_key_witness:
  "\<not> truthy_str None
   \<and> snd (check_dog_api_status (always (Inr (json_response (JArr [JObj [(''id'', JStr ''BJa4kxc4X'')]]))))
          None ''2025-06-01T12:00:00'')
       = [\<lparr>url = ''https://api.thedogapi.com/v1/images/search?limit=1'', params = [], headers = []\<rparr>]
   \<and> (\<exists>doc. fst (check_dog_api_status
                    (always (Inr (json_response (JArr [JObj [(''id'', JStr ''BJa4kxc4X'')]]))))
                    None ''2025-06-01T12:00:00'') = Inr doc
          \<and> field doc ''api_key_status'' = Some (JStr ''not_configured''))"
  using status_without_key [of None "always (Inr (json_response (JArr [JObj [(''id'', JStr ''BJa4kxc4X'')]])))"
      "''2025-06-01T12:00:00''"]
  by (simp add: always_def json_response_def probe_request_def DOG_API_BASE_URL_def)

text \<open>
  C9 as stated fails when the probe does not succeed: with no key and a probe answered
  with status 500, the document has no \<open>api_key_status\<close> at all.
\<close>

theorem status_without_key_counterexample:
  "fst (check_dog_api_status (always (Inr (error_response 500 ''Internal Server Error''))) None
          ''2025-06-01T12:00:00'')
     = Inr (JObj
        [(''timestamp'', JStr ''2025-06-01T12:00:00''),
         (''api_status'', JStr ''error''),
         (''api_key_configured'', JBool False),
         (''base_url'', JStr ''https://api.thedogapi.com/v1''),
         (''connectivity'', JStr ''failed_with_status_500''),
         (''configuration'',
            JObj [(''timeout'', JStr ''10 seconds''),
                  (''max_images_per_request'', JInt 10),
                  (''supported_formats'', JArr [JStr ''json'', JStr ''src''])]),
         (''error_details'', JStr ''Internal Server Error''),
         (''troubleshooting'',
            JObj [(''api_key_setup'', JStr ''Set DOG_API_KEY environment variable''),
                  (''get_api_key'', JStr ''Visit https://thedogapi.com to get a free API key''),
                  (''common_issues'', JArr [JStr ''Check internet connection'',
                                            JStr ''Verify API key is correct'',
                                            JStr ''Ensure rate limits are not exceeded''])])])
   \<and> (case fst (check_dog_api_status (always (Inr (error_response 500 ''Internal Server Error'')))
                   None ''2025-06-01T12:00:00'') of
         Inr doc \<Rightarrow> field doc ''api_key_status'' = None
                      \<and> field doc ''api_key_status'' \<noteq> Some (JStr ''not_configured'')
       | Inl e \<Rightarrow> False)"
  by code_simp

text \<open>
  C10. An empty string for \<open>breed_id\<close>, \<open>category_ids\<close> or \<open>search\<close> gives the same
  result and the same request as no value: the request sent has no \<open>breed_ids\<close>,
  \<open>category_ids\<close> or \<open>q\<close> parameter.
\<close>

theorem empty_string_is_absent:
  "get_random_dog_image srv api_key now (Some []) category_ids format limit
     = get_random_dog_image srv api_key now None category_ids format limit
   \<and> get_random_dog_image srv api_key now breed_id (Some []) format limit
     = get_random_dog_image srv api_key now breed_id None format limit
   \<and> get_dog_breeds srv api_key now limit page (Some [])
     = get_dog_breeds srv api_key now limit page None
   \<and> snd (get_random_dog_image srv api_key now (Some []) (Some []) format limit)
     = [random_image_request api_key None None format limit]
   \<and> map_of (params (random_image_request api_key None None format limit)) ''breed_ids'' = None
   \<and> map_of (params (random_image_request api_key None None format limit)) ''category_ids'' = None
   \<and> snd (get_dog_breeds srv api_key now limit page (Some []))
     = [breeds_request api_key (breeds_limit limit) (breeds_page page) None]
   \<and> map_of (params (breeds_request api_key (breeds_limit limit) (breeds_page page) None)) ''q'' = None"
  by (simp add: get_random_dog_image_def random_image_try_def random_image_request_def
      random_image_params_def get_dog_breeds_def breeds_try_def breeds_request_def
      breeds_params_def client_get_def Let_def)

end
